theory Spec2Isabelle
  imports Main "HOL-Library.AList"
begin

section \<open>The documentation build configuration \<^verbatim>\<open>docs/conf.py\<close>\<close>

text \<open>
  The file is a Python module made of eight top-level assignments. The documentation
  builder loads it by executing the module body in a namespace (the module's globals) and
  then reads the names it recognises from that namespace. Loading is modelled as exactly
  that: the statements of the module, in source order, run against a namespace, with every
  exception of the fragment of Python the module uses as an error value.
\<close>

subsection \<open>Values\<close>

text \<open>
  A Python string is a sequence of Unicode code points, so a string is a list of code
  points here. The \<^verbatim>\<open>u\<close> prefix of two of the literals does not change the
  characters of the literal. \<open>ascii\<close> embeds a literal whose characters are all ASCII.
\<close>

type_synonym pystr = "nat list"

definition ascii :: "string \<Rightarrow> pystr" where
  "ascii s = map of_char s"

text \<open>
  The copyright literal holds U+2013 (EN DASH) between the years, the bytes
  \<^verbatim>\<open>E2 80 93\<close> of the file under its declared \<^verbatim>\<open>utf-8\<close> coding.
\<close>

definition en_dash :: nat where
  "en_dash = 0x2013"

text \<open>
  The values the module can build: strings, the booleans of the theme toggles, and
  dictionaries. A dictionary keeps its entries in insertion order, one entry per key.
\<close>

datatype pyval =
    Str pystr
  | Bool bool
  | Dict "(pyval \<times> pyval) list"

datatype error =
    TypeError string

text \<open>Strings and booleans are hashable, a dictionary is not.\<close>

fun hashable :: "pyval \<Rightarrow> bool" where
  "hashable (Str s) = True"
| "hashable (Bool b) = True"
| "hashable (Dict d) = False"

text \<open>\<^verbatim>\<open>d.get(k)\<close>: the value stored under a key, \<open>None\<close> when the key is unset.\<close>

definition dict_get :: "(pyval \<times> pyval) list \<Rightarrow> pyval \<Rightarrow> pyval option" where
  "dict_get d k = map_of d k"

subsection \<open>Expressions and statements\<close>

text \<open>
  The module uses string literals and one dictionary display; the entries written in that
  display are boolean toggles, all of them in comments.
\<close>

datatype expr =
    StrLit pystr
  | BoolLit bool
  | DictDisplay "(expr \<times> expr) list"

datatype stmt =
    Assign string expr

type_synonym namespace = "string \<rightharpoonup> pyval"

text \<open>
  A dictionary display evaluates its entries from left to right, key before value, and
  stores each one: a later entry replaces the value of an equal earlier key, and a key
  that is not hashable raises \<^verbatim>\<open>TypeError\<close>.
\<close>

function eval :: "expr \<Rightarrow> error + pyval"
  and eval_items :: "(expr \<times> expr) list \<Rightarrow> (pyval \<times> pyval) list \<Rightarrow> error + (pyval \<times> pyval) list"
where
  "eval (StrLit s) = Inr (Str s)"
| "eval (BoolLit b) = Inr (Bool b)"
| "eval (DictDisplay items) =
     (case eval_items items [] of
        Inl e \<Rightarrow> Inl e
      | Inr d \<Rightarrow> Inr (Dict d))"
| "eval_items [] d = Inr d"
| "eval_items ((ke, ve) # rest) d =
     (case eval ke of
        Inl e \<Rightarrow> Inl e
      | Inr k \<Rightarrow>
          (case eval ve of
             Inl e \<Rightarrow> Inl e
           | Inr v \<Rightarrow>
               if hashable k then eval_items rest (AList.update k v d)
               else Inl (TypeError ''unhashable type'')))"
  by pat_completeness auto
termination
  by (relation "measure (\<lambda>x. case x of
         Inl e \<Rightarrow> 2 * size e
       | Inr (items, d) \<Rightarrow> 2 * size_list (size_prod size size) items + 1)") auto

text \<open>An assignment at module level binds the name in the namespace.\<close>

fun exec :: "stmt \<Rightarrow> namespace \<Rightarrow> error + namespace" where
  "exec (Assign name e) ns =
     (case eval e of
        Inl err \<Rightarrow> Inl err
      | Inr v \<Rightarrow> Inr (ns(name \<mapsto> v)))"

text \<open>The module body runs statement by statement and stops at the first exception.\<close>

fun exec_all :: "stmt list \<Rightarrow> namespace \<Rightarrow> error + namespace" where
  "exec_all [] ns = Inr ns"
| "exec_all (s # ss) ns =
     (case exec s ns of
        Inl err \<Rightarrow> Inl err
      | Inr ns' \<Rightarrow> exec_all ss ns')"

subsection \<open>The module\<close>

text \<open>
  \<^verbatim>\<open>
  source_suffix = '.rst'
  master_doc = 'index'
  project = u'XTools'
  copyright = u'2008<U+2013>2020, XTools contributors'
  version = '3.11'
  release = '3.11.0'
  html_theme = 'sphinx_rtd_theme'
  html_theme_options = {
  #    'slidetoc': True,
  #    'enablesidebar': True,
  #    'rightsidebar': True,
  }
  \<close>
\<close>

definition conf_py :: "stmt list" where
  "conf_py =
    [ Assign ''source_suffix'' (StrLit (ascii ''.rst'')),
      Assign ''master_doc'' (StrLit (ascii ''index'')),
      Assign ''project'' (StrLit (ascii ''XTools'')),
      Assign ''copyright''
        (StrLit (ascii ''2008'' @ [en_dash] @ ascii ''2020, XTools contributors'')),
      Assign ''version'' (StrLit (ascii ''3.11'')),
      Assign ''release'' (StrLit (ascii ''3.11.0'')),
      Assign ''html_theme'' (StrLit (ascii ''sphinx_rtd_theme'')),
      Assign ''html_theme_options'' (DictDisplay []) ]"

text \<open>
  Loading the configuration: the module body executed in the namespace the builder
  supplies. The builder's namespace is a parameter, so a statement about \<open>load ns\<close> for
  every \<open>ns\<close> is a statement about every load.
\<close>

definition load :: "namespace \<Rightarrow> error + namespace" where
  "load ns = exec_all conf_py ns"

text \<open>The names of the fields the specification lists, in its order.\<close>

definition recognized_fields :: "string list" where
  "recognized_fields =
    [ ''source_suffix'', ''master_doc'', ''project'', ''copyright'',
      ''version'', ''release'', ''html_theme'', ''html_theme_options'' ]"

section \<open>Properties\<close>

subsection \<open>The interpreter\<close>

lemma ascii_code_points:
  "ascii ''.rst'' = [46, 114, 115, 116]"
  "ascii ''XTools'' = [88, 84, 111, 111, 108, 115]"
  by (simp_all add: ascii_def)

lemma unhashable_key_raises:
  "eval (DictDisplay [(DictDisplay [], BoolLit True)]) = Inl (TypeError ''unhashable type'')"
  by simp

lemma later_entry_replaces:
  "eval (DictDisplay [(StrLit k, BoolLit True), (StrLit k, BoolLit False)])
     = Inr (Dict [(Str k, Bool False)])"
  by simp

lemma later_assignment_rebinds:
  "exec_all [Assign ''x'' (BoolLit True), Assign ''x'' (BoolLit False)] ns
     = Inr (ns(''x'' \<mapsto> Bool False))"
  by simp

subsection \<open>The namespace after a load\<close>

text \<open>
  Every statement of the module evaluates without an exception, so a load from any
  namespace returns that namespace with the eight names bound, in source order.
\<close>

lemma load_result:
  "load ns = Inr (ns(
      ''source_suffix'' \<mapsto> Str (ascii ''.rst''),
      ''master_doc'' \<mapsto> Str (ascii ''index''),
      ''project'' \<mapsto> Str (ascii ''XTools''),
      ''copyright'' \<mapsto> Str (ascii ''2008'' @ [en_dash] @ ascii ''2020, XTools contributors''),
      ''version'' \<mapsto> Str (ascii ''3.11''),
      ''release'' \<mapsto> Str (ascii ''3.11.0''),
      ''html_theme'' \<mapsto> Str (ascii ''sphinx_rtd_theme''),
      ''html_theme_options'' \<mapsto> Dict []))"
  by (simp add: load_def conf_py_def)

lemma load_returns: "\<exists>ns'. load ns = Inr ns'"
  by (simp add: load_result)

text \<open>
  The same, read field by field, and its consequence that a second load over the result
  of a load rebinds every name to the value it already has.
\<close>

lemma load_fields:
  assumes "load ns = Inr a"
  shows "a ''source_suffix'' = Some (Str (ascii ''.rst''))"
    and "a ''master_doc'' = Some (Str (ascii ''index''))"
    and "a ''project'' = Some (Str (ascii ''XTools''))"
    and "a ''copyright'' = Some (Str (ascii ''2008'' @ [en_dash] @ ascii ''2020, XTools contributors''))"
    and "a ''version'' = Some (Str (ascii ''3.11''))"
    and "a ''release'' = Some (Str (ascii ''3.11.0''))"
    and "a ''html_theme'' = Some (Str (ascii ''sphinx_rtd_theme''))"
    and "a ''html_theme_options'' = Some (Dict [])"
proof -
  have a_eq: "a = ns(
      ''source_suffix'' \<mapsto> Str (ascii ''.rst''),
      ''master_doc'' \<mapsto> Str (ascii ''index''),
      ''project'' \<mapsto> Str (ascii ''XTools''),
      ''copyright'' \<mapsto> Str (ascii ''2008'' @ [en_dash] @ ascii ''2020, XTools contributors''),
      ''version'' \<mapsto> Str (ascii ''3.11''),
      ''release'' \<mapsto> Str (ascii ''3.11.0''),
      ''html_theme'' \<mapsto> Str (ascii ''sphinx_rtd_theme''),
      ''html_theme_options'' \<mapsto> Dict [])"
    using assms load_result [of ns] by simp
  show "a ''source_suffix'' = Some (Str (ascii ''.rst''))" by (simp add: a_eq)
  show "a ''master_doc'' = Some (Str (ascii ''index''))" by (simp add: a_eq)
  show "a ''project'' = Some (Str (ascii ''XTools''))" by (simp add: a_eq)
  show "a ''copyright'' = Some (Str (ascii ''2008'' @ [en_dash] @ ascii ''2020, XTools contributors''))"
    by (simp add: a_eq)
  show "a ''version'' = Some (Str (ascii ''3.11''))" by (simp add: a_eq)
  show "a ''release'' = Some (Str (ascii ''3.11.0''))" by (simp add: a_eq)
  show "a ''html_theme'' = Some (Str (ascii ''sphinx_rtd_theme''))" by (simp add: a_eq)
  show "a ''html_theme_options'' = Some (Dict [])" by (simp add: a_eq)
qed

lemma load_again:
  assumes "load ns = Inr a"
  shows "load a = Inr a"
  unfolding load_result [of a]
  by (simp only: load_fields [OF assms] map_upd_triv)

subsection \<open>The fields\<close>

text \<open>
  C1. Every load succeeds and leaves the name \<^verbatim>\<open>project\<close> bound to the string
  \<^verbatim>\<open>XTools\<close> (the code points 88 84 111 111 108 115), whatever the namespace the load
  started from.
\<close>

theorem project_is_XTools:
  "\<exists>ns'. load ns = Inr ns'
      \<and> ns' ''project'' = Some (Str (ascii ''XTools''))
      \<and> ns' ''project'' = Some (Str [88, 84, 111, 111, 108, 115])"
  by (simp add: load_result ascii_def)

text \<open>
  C2. Every load succeeds and leaves \<^verbatim>\<open>version\<close> bound to the string
  \<^verbatim>\<open>3.11\<close> and \<^verbatim>\<open>release\<close> bound to the string \<^verbatim>\<open>3.11.0\<close>.
\<close>

theorem version_and_release:
  "\<exists>ns'. load ns = Inr ns'
      \<and> ns' ''version'' = Some (Str (ascii ''3.11''))
      \<and> ns' ''release'' = Some (Str (ascii ''3.11.0''))"
  by (simp add: load_result)

text \<open>
  C6. Every load succeeds and leaves \<^verbatim>\<open>source_suffix\<close> bound to the string
  \<^verbatim>\<open>.rst\<close>.
\<close>

theorem source_suffix_is_rst:
  "\<exists>ns'. load ns = Inr ns' \<and> ns' ''source_suffix'' = Some (Str (ascii ''.rst''))"
  by (simp add: load_result)

text \<open>
  C7. Every load succeeds and leaves \<^verbatim>\<open>master_doc\<close> bound to the string
  \<^verbatim>\<open>index\<close>.
\<close>

theorem master_doc_is_index:
  "\<exists>ns'. load ns = Inr ns' \<and> ns' ''master_doc'' = Some (Str (ascii ''index''))"
  by (simp add: load_result)

text \<open>
  C8. Every load succeeds and leaves \<^verbatim>\<open>html_theme\<close> bound to the string
  \<^verbatim>\<open>sphinx_rtd_theme\<close>.
\<close>

theorem html_theme_is_sphinx_rtd_theme:
  "\<exists>ns'. load ns = Inr ns'
      \<and> ns' ''html_theme'' = Some (Str (ascii ''sphinx_rtd_theme''))"
  by (simp add: load_result)

text \<open>
  C9. Every load succeeds and leaves \<^verbatim>\<open>copyright\<close> bound to the string made of
  \<^verbatim>\<open>2008\<close>, one en dash (the code point U+2013, decimal 8211) and
  \<^verbatim>\<open>2020, XTools contributors\<close>: thirty code points, the fifth of them the dash.
\<close>

theorem copyright_has_en_dash:
  "\<exists>ns' s. load ns = Inr ns'
      \<and> ns' ''copyright'' = Some (Str s)
      \<and> s = ascii ''2008'' @ [8211] @ ascii ''2020, XTools contributors''
      \<and> length s = 30
      \<and> s ! 4 = en_dash"
  by (simp add: load_result ascii_def en_dash_def)

subsection \<open>The theme options\<close>

text \<open>
  C3. Every load succeeds and leaves \<^verbatim>\<open>html_theme_options\<close> bound to a dictionary
  in which every key is unset or maps to \<^verbatim>\<open>False\<close>: no toggle is enabled.
\<close>

theorem theme_toggles_disabled:
  "\<exists>ns' opts. load ns = Inr ns'
      \<and> ns' ''html_theme_options'' = Some (Dict opts)
      \<and> (\<forall>k. dict_get opts k = None \<or> dict_get opts k = Some (Bool False))"
  by (simp add: load_result dict_get_def)

text \<open>
  C10. Every load succeeds and leaves \<^verbatim>\<open>html_theme_options\<close> bound to the empty
  dictionary: it has no entry, and no key has a value in it.
\<close>

theorem theme_options_empty:
  "\<exists>ns' opts. load ns = Inr ns'
      \<and> ns' ''html_theme_options'' = Some (Dict opts)
      \<and> opts = []
      \<and> (\<forall>k. dict_get opts k = None)"
  by (simp add: load_result dict_get_def)

subsection \<open>Loading as a whole\<close>

text \<open>
  C5. Loading never raises: from every namespace the load returns a namespace, and it
  returns no error.
\<close>

theorem load_never_raises:
  "(\<exists>ns'. load ns = Inr ns') \<and> (\<forall>e. load ns \<noteq> Inl e)"
  by (simp add: load_result)

text \<open>
  C4. Loading is deterministic and idempotent. Two loads, from any two namespaces, both
  succeed and bind every recognised field, and each field has the same value in both
  results; loading again over the result of a load changes nothing.
\<close>

theorem load_deterministic_idempotent:
  "\<exists>a b. load ns1 = Inr a \<and> load ns2 = Inr b
      \<and> map a recognized_fields = map b recognized_fields
      \<and> None \<notin> set (map a recognized_fields)
      \<and> load a = Inr a"
proof -
  obtain a where a: "load ns1 = Inr a"
    using load_returns by blast
  obtain b where b: "load ns2 = Inr b"
    using load_returns by blast
  have same: "map a recognized_fields = map b recognized_fields"
    unfolding recognized_fields_def
    by (simp only: list.map load_fields [OF a] load_fields [OF b])
  have bound: "None \<notin> set (map a recognized_fields)"
    unfolding recognized_fields_def
    by (simp only: list.map load_fields [OF a]) simp
  have again: "load a = Inr a"
    using a by (rule load_again)
  show ?thesis
    using a b same bound again by (intro exI conjI)
qed

end
